theory Spec2Isabelle
  imports Main "HOL-Library.Char_ord" "HOL-Library.List_Lexorder" "HOL-Library.Sublist"
begin

section \<open>Python values used by the link checker\<close>

text \<open>
  A Python \<open>str\<close> is modelled as a \<^typ>\<open>string\<close> whose characters are code points
  below 256; Python's \<open>int\<close> is \<^typ>\<open>int\<close>. \<open>str_int\<close> is \<open>str(i)\<close>, which is what an
  f-string writes for an integer field.
\<close>

definition digit_char :: "nat \<Rightarrow> char" where
  "digit_char d = ''0123456789'' ! d"

fun digits10 :: "nat \<Rightarrow> string" where
  "digits10 n = (if n < 10 then [digit_char n] else digits10 (n div 10) @ [digit_char (n mod 10)])"

declare digits10.simps [simp del]

definition str_int :: "int \<Rightarrow> string" where
  "str_int i = (if i < 0 then CHR ''-'' # digits10 (nat (- i)) else digits10 (nat i))"

text \<open>
  Exceptions are values, each carrying the text of \<open>str(e)\<close>. \<open>RequestException\<close> stands for
  \<open>requests.RequestException\<close> and all of its subclasses (connection errors, timeouts,
  invalid URLs, \<open>HTTPError\<close>); \<open>ValueError\<close> is the built-in exception, which \<open>urlsplit\<close>
  raises; \<open>OtherException\<close> is any other exception, for instance the \<open>LocationParseError\<close>
  of \<open>urllib3\<close>, which \<open>requests\<close> lets through.
\<close>

datatype exn = RequestException string | ValueError string | OtherException string

section \<open>The HTTP client (\<open>requests\<close>)\<close>

datatype meth = HEAD | GET

record request =
  req_method :: meth
  req_url :: string
  req_redirects :: bool
  req_timeout :: int

record response =
  status_code :: int
  reason :: string
  resp_url :: string
  resp_text :: string

text \<open>
  The network is a parameter of the model: given the requests already sent and the
  request sent now, it answers with a response or raises. A session carries its headers
  and the requests it has sent, oldest first.
\<close>

type_synonym network = "request list \<Rightarrow> request \<Rightarrow> exn + response"

record session =
  headers :: "(string \<times> string) list"
  sent :: "request list"

definition session_request ::
    "network \<Rightarrow> session \<Rightarrow> meth \<Rightarrow> string \<Rightarrow> bool \<Rightarrow> int \<Rightarrow> (exn + response) \<times> session" where
  "session_request net s m u redir t =
     (let r = \<lparr>req_method = m, req_url = u, req_redirects = redir, req_timeout = t\<rparr>
      in (net (sent s) r, s\<lparr>sent := sent s @ [r]\<rparr>))"

definition session_head ::
    "network \<Rightarrow> session \<Rightarrow> string \<Rightarrow> bool \<Rightarrow> int \<Rightarrow> (exn + response) \<times> session" where
  "session_head net s u redir t = session_request net s HEAD u redir t"

definition session_get ::
    "network \<Rightarrow> session \<Rightarrow> string \<Rightarrow> bool \<Rightarrow> int \<Rightarrow> (exn + response) \<times> session" where
  "session_get net s u redir t = session_request net s GET u redir t"

text \<open>
  \<open>create_session\<close>: a fresh session, which has sent nothing, with the User-Agent header
  that the program sets.
\<close>

definition create_session :: session where
  "create_session =
     \<lparr>headers = [(''User-Agent'',
         ''Mozilla/5.0 (Windows NT 10.0; Win64; x64) '' @
         ''AppleWebKit/537.36 (KHTML, like Gecko) '' @
         ''Chrome/123.0 Safari/537.36'')],
      sent = []\<rparr>"

section \<open>\<open>check_link\<close>\<close>

text \<open>
  The body of the inner \<open>try\<close> (lines 83 to 89): the HEAD probe and the three tests on its
  status code, in the order of the source. A \<open>raise\<close> is the value \<open>Inl\<close>.
\<close>

definition check_link_head ::
    "network \<Rightarrow> session \<Rightarrow> string \<Rightarrow> int \<Rightarrow> (exn + bool \<times> string) \<times> session" where
  "check_link_head net s u t =
     (case session_head net s u True t of
        (Inl e, s1) \<Rightarrow> (Inl e, s1)
      | (Inr resp, s1) \<Rightarrow>
          (let code = status_code resp in
           if code \<ge> 400 then (Inr (True, ''HTTP '' @ str_int code @ '' (HEAD)''), s1)
           else if code \<in> {405, 403}
             then (Inl (RequestException (''HEAD not reliable: '' @ str_int code)), s1)
           else (Inr (False, ''HTTP '' @ str_int code @ '' (HEAD)''), s1)))"

text \<open>The handler of the inner \<open>try\<close> (lines 91 to 95): the full GET fetch.\<close>

definition check_link_get ::
    "network \<Rightarrow> session \<Rightarrow> string \<Rightarrow> int \<Rightarrow> (exn + bool \<times> string) \<times> session" where
  "check_link_get net s u t =
     (case session_get net s u True t of
        (Inl e, s1) \<Rightarrow> (Inl e, s1)
      | (Inr resp, s1) \<Rightarrow>
          (let code = status_code resp in
           if code \<ge> 400 then (Inr (True, ''HTTP '' @ str_int code @ '' (GET)''), s1)
           else (Inr (False, ''HTTP '' @ str_int code @ '' (GET)''), s1)))"

text \<open>
  \<open>check_link\<close>: the inner \<open>except requests.RequestException\<close> runs the GET fetch, the
  outer one (lines 96 and 97) turns a \<open>RequestException\<close> of either into a broken verdict.
  Any other exception propagates to the caller.
\<close>

definition check_link ::
    "network \<Rightarrow> session \<Rightarrow> string \<Rightarrow> int \<Rightarrow> (exn + bool \<times> string) \<times> session" where
  "check_link net s u t =
     (let (r, s2) =
        (case check_link_head net s u t of
           (Inl (RequestException _), s1) \<Rightarrow> check_link_get net s1 u t
         | other \<Rightarrow> other)
      in case r of
           Inl (RequestException e) \<Rightarrow> (Inr (True, ''Error: '' @ e), s2)
         | _ \<Rightarrow> (r, s2))"

section \<open>String operations of Python\<close>

text \<open>
  \<open>isspace\<close> is \<open>str.isspace\<close> on one character (the white space among the code points
  below 256); \<open>strip\<close> is \<open>str.strip()\<close> without argument. \<open>str_find\<close>, \<open>str_find_from\<close>
  and \<open>str_rfind\<close> are \<open>s.find(c)\<close>, \<open>s.find(c, start)\<close> and \<open>s.rfind(c)\<close> for a
  one-character needle: an index, or \<open>-1\<close>. \<open>slice_to\<close> and \<open>slice_from\<close> are \<open>s[:i]\<close> and
  \<open>s[i:]\<close>, where a negative index counts from the end.
\<close>

definition isspace :: "char \<Rightarrow> bool" where
  "isspace c \<longleftrightarrow> (of_char c :: nat) \<in> {9, 10, 11, 12, 13, 28, 29, 30, 31, 32, 133, 160}"

definition lstrip :: "string \<Rightarrow> string" where
  "lstrip s = dropWhile isspace s"

definition rstrip :: "string \<Rightarrow> string" where
  "rstrip s = rev (dropWhile isspace (rev s))"

definition strip :: "string \<Rightarrow> string" where
  "strip s = rstrip (lstrip s)"

definition startswith :: "string \<Rightarrow> string list \<Rightarrow> bool" where
  "startswith s ps = list_ex (\<lambda>p. take (length p) s = p) ps"

definition str_find :: "string \<Rightarrow> char \<Rightarrow> int" where
  "str_find s c = (if c \<in> set s then int (length (takeWhile (\<lambda>x. x \<noteq> c) s)) else - 1)"

definition str_find_from :: "string \<Rightarrow> char \<Rightarrow> nat \<Rightarrow> int" where
  "str_find_from s c start =
     (if c \<in> set (drop start s)
      then int (start + length (takeWhile (\<lambda>x. x \<noteq> c) (drop start s))) else - 1)"

definition str_rfind :: "string \<Rightarrow> char \<Rightarrow> int" where
  "str_rfind s c =
     (if c \<in> set s then int (length s - 1 - length (takeWhile (\<lambda>x. x \<noteq> c) (rev s))) else - 1)"

definition slice_to :: "string \<Rightarrow> int \<Rightarrow> string" where
  "slice_to s i = (if i \<ge> 0 then take (nat i) s else take (length s - nat (- i)) s)"

definition slice_from :: "string \<Rightarrow> int \<Rightarrow> string" where
  "slice_from s i = (if i \<ge> 0 then drop (nat i) s else drop (length s - nat (- i)) s)"

text \<open>\<open>split1 s c\<close> is \<open>s.split(c, 1)\<close> for a string that contains \<open>c\<close>.\<close>

definition split1 :: "string \<Rightarrow> char \<Rightarrow> string \<times> string" where
  "split1 s c = (takeWhile (\<lambda>x. x \<noteq> c) s, drop 1 (dropWhile (\<lambda>x. x \<noteq> c) s))"

text \<open>\<open>split_on c s\<close> is \<open>s.split(c)\<close>, \<open>str_join sep parts\<close> is \<open>sep.join(parts)\<close>.\<close>

fun split_on :: "char \<Rightarrow> string \<Rightarrow> string list" where
  "split_on c [] = [[]]"
| "split_on c (x # xs) =
     (if x = c then [] # split_on c xs
      else (case split_on c xs of [] \<Rightarrow> [[x]] | p # ps \<Rightarrow> (x # p) # ps))"

fun str_join :: "string \<Rightarrow> string list \<Rightarrow> string" where
  "str_join sep [] = []"
| "str_join sep [p] = p"
| "str_join sep (p # q # ps) = p @ sep @ str_join sep (q # ps)"

text \<open>
  \<open>py_repr s\<close> is \<open>repr(s)\<close>: the string in quotes (double quotes when it has a single quote
  and no double quote), with the quote and the backslash escaped, tab, newline and
  carriage return written \<open>\t\<close>, \<open>\n\<close>, \<open>\r\<close>, and every other character that is not
  printable written \<open>\xNN\<close>.
\<close>

definition py_isprintable :: "char \<Rightarrow> bool" where
  "py_isprintable c \<longleftrightarrow>
     (32 \<le> (of_char c :: nat) \<and> (of_char c :: nat) < 127) \<or>
     (161 \<le> (of_char c :: nat) \<and> (of_char c :: nat) \<noteq> 173)"

definition repr_char :: "char \<Rightarrow> char \<Rightarrow> string" where
  "repr_char quote c =
     (if c = quote \<or> c = CHR 0x5C then [CHR 0x5C, c]
      else if c = CHR 0x09 then [CHR 0x5C, CHR ''t'']
      else if c = CHR 0x0A then [CHR 0x5C, CHR ''n'']
      else if c = CHR 0x0D then [CHR 0x5C, CHR ''r'']
      else if \<not> py_isprintable c then
        [CHR 0x5C, CHR ''x'', ''0123456789abcdef'' ! (of_char c div 16),
         ''0123456789abcdef'' ! (of_char c mod 16)]
      else [c])"

definition py_repr :: "string \<Rightarrow> string" where
  "py_repr s =
     (let quote = (if CHR 0x27 \<in> set s \<and> CHR 0x22 \<notin> set s then CHR 0x22 else CHR 0x27)
      in [quote] @ concat (map (repr_char quote) s) @ [quote])"

section \<open>\<open>ipaddress\<close>\<close>

text \<open>
  \<open>urlsplit\<close> validates a host in square brackets with \<open>ipaddress.ip_address\<close>. These are
  the string parsers of CPython's \<open>ipaddress.py\<close> (3.11), as far as they decide whether
  \<open>IPv4Address(s)\<close> and \<open>IPv6Address(s)\<close> raise: \<open>valid_ipv4 s\<close> and \<open>valid_ipv6 s\<close> hold
  when they do not.
\<close>

definition ascii_digits :: string where
  "ascii_digits = ''0123456789''"

definition hex_digits :: string where
  "hex_digits = ''0123456789ABCDEFabcdef''"

text \<open>\<open>int(s, 10)\<close> for a string of decimal digits, and \<open>'%x' % n\<close>.\<close>

definition int_of_digits :: "string \<Rightarrow> nat" where
  "int_of_digits s = foldl (\<lambda>n c. 10 * n + (of_char c - 48)) 0 s"

fun hex_str :: "nat \<Rightarrow> string" where
  "hex_str n =
     (if n < 16 then [''0123456789abcdef'' ! n]
      else hex_str (n div 16) @ [''0123456789abcdef'' ! (n mod 16)])"

declare hex_str.simps [simp del]

text \<open>\<open>_parse_octet\<close> returns; \<open>_parse_hextet\<close> returns (\<open>int('', 16)\<close> raises).\<close>

definition valid_octet :: "string \<Rightarrow> bool" where
  "valid_octet octet_str \<longleftrightarrow>
     octet_str \<noteq> [] \<and>
     list_all (\<lambda>c. c \<in> set ascii_digits) octet_str \<and>
     length octet_str \<le> 3 \<and>
     \<not> (octet_str \<noteq> ''0'' \<and> hd octet_str = CHR ''0'') \<and>
     int_of_digits octet_str \<le> 255"

definition valid_hextet :: "string \<Rightarrow> bool" where
  "valid_hextet hextet_str \<longleftrightarrow>
     list_all (\<lambda>c. c \<in> set hex_digits) hextet_str \<and>
     length hextet_str \<le> 4 \<and>
     hextet_str \<noteq> []"

definition valid_ipv4 :: "string \<Rightarrow> bool" where
  "valid_ipv4 addr_str \<longleftrightarrow>
     CHR ''/'' \<notin> set addr_str \<and>
     addr_str \<noteq> [] \<and>
     length (split_on CHR ''.'' addr_str) = 4 \<and>
     list_all valid_octet (split_on CHR ''.'' addr_str)"

text \<open>The value \<open>_ip\<close> of a valid IPv4 address.\<close>

definition ipv4_int :: "string \<Rightarrow> nat" where
  "ipv4_int addr_str = foldl (\<lambda>n octet. 256 * n + int_of_digits octet) 0 (split_on CHR ''.'' addr_str)"

text \<open>
  \<open>_BaseV6._ip_int_from_string\<close>: \<open>parts\<close> after the IPv4-style suffix, if there is one,
  has been replaced by its two hextets; \<open>skips\<close> are the indices, endpoints apart, of the
  empty parts.
\<close>

definition valid_ipv6_parts :: "string list \<Rightarrow> bool" where
  "valid_ipv6_parts parts \<longleftrightarrow>
     length parts \<le> 9 \<and>
     (let skips = filter (\<lambda>i. parts ! i = []) [1 ..< length parts - 1]
      in if skips \<noteq> [] then
           length skips = 1 \<and>
           (let skip_index = hd skips;
                parts_hi0 = skip_index;
                parts_lo0 = length parts - skip_index - 1;
                parts_hi = (if hd parts = [] then parts_hi0 - 1 else parts_hi0);
                parts_lo = (if last parts = [] then parts_lo0 - 1 else parts_lo0)
            in \<not> (hd parts = [] \<and> parts_hi \<noteq> 0) \<and>
               \<not> (last parts = [] \<and> parts_lo \<noteq> 0) \<and>
               parts_hi + parts_lo < 8 \<and>
               list_all valid_hextet (take parts_hi parts) \<and>
               list_all valid_hextet (drop (length parts - parts_lo) parts))
         else
           length parts = 8 \<and> hd parts \<noteq> [] \<and> last parts \<noteq> [] \<and>
           list_all valid_hextet parts)"

definition valid_ipv6_addr :: "string \<Rightarrow> bool" where
  "valid_ipv6_addr ip_str \<longleftrightarrow>
     ip_str \<noteq> [] \<and>
     (let parts = split_on CHR '':'' ip_str
      in length parts \<ge> 3 \<and>
         (if CHR ''.'' \<in> set (last parts) then
            valid_ipv4 (last parts) \<and>
            valid_ipv6_parts
              (butlast parts @
               [hex_str ((ipv4_int (last parts) div 65536) mod 65536),
                hex_str (ipv4_int (last parts) mod 65536)])
          else valid_ipv6_parts parts))"

text \<open>\<open>IPv6Address(s)\<close>, which first separates the scope id after \<open>%\<close>.\<close>

definition valid_ipv6 :: "string \<Rightarrow> bool" where
  "valid_ipv6 addr_str \<longleftrightarrow>
     CHR ''/'' \<notin> set addr_str \<and>
     (if CHR ''%'' \<in> set addr_str then
        (case split1 addr_str CHR ''%'' of
           (addr, scope_id) \<Rightarrow>
             scope_id \<noteq> [] \<and> CHR ''%'' \<notin> set scope_id \<and> valid_ipv6_addr addr)
      else valid_ipv6_addr addr_str)"

section \<open>\<open>urllib.parse\<close>\<close>

text \<open>
  \<open>urlparse\<close> and \<open>urljoin\<close> are library functions of CPython (3.11), translated from
  \<open>urllib/parse.py\<close> for \<open>str\<close> arguments and \<open>allow_fragments=True\<close>, which is how this
  program calls them. \<open>urlsplit\<close> raises \<open>ValueError\<close> for a network location whose square
  brackets do not match or do not hold an IPv6 or IPvFuture address; the functions that
  call it pass the exception on. Its last check, \<open>_checknetloc\<close>, raises only when the
  NFKC normal form of the network location has one of the characters \<open>/?#@:\<close>; no code
  point below 256 normalises to a string with such a character, so that check never
  raises on the strings of this model.
\<close>

definition uses_relative :: "string list" where
  "uses_relative = ['''', ''ftp'', ''http'', ''gopher'', ''nntp'', ''imap'',
     ''wais'', ''file'', ''https'', ''shttp'', ''mms'',
     ''prospero'', ''rtsp'', ''rtsps'', ''rtspu'', ''sftp'',
     ''svn'', ''svn+ssh'', ''ws'', ''wss'']"

definition uses_netloc :: "string list" where
  "uses_netloc = ['''', ''ftp'', ''http'', ''gopher'', ''nntp'', ''telnet'',
     ''imap'', ''wais'', ''file'', ''mms'', ''https'', ''shttp'',
     ''snews'', ''prospero'', ''rtsp'', ''rtsps'', ''rtspu'', ''rsync'',
     ''svn'', ''svn+ssh'', ''sftp'', ''nfs'', ''git'', ''git+ssh'',
     ''ws'', ''wss'']"

definition uses_params :: "string list" where
  "uses_params = ['''', ''ftp'', ''hdl'', ''prospero'', ''http'', ''imap'',
     ''https'', ''shttp'', ''rtsp'', ''rtsps'', ''rtspu'', ''sip'',
     ''sips'', ''mms'', ''sftp'', ''tel'']"

definition ascii_lowercase :: string where
  "ascii_lowercase = ''abcdefghijklmnopqrstuvwxyz''"

definition ascii_uppercase :: string where
  "ascii_uppercase = ''ABCDEFGHIJKLMNOPQRSTUVWXYZ''"

definition scheme_chars :: string where
  "scheme_chars = ascii_lowercase @ ascii_uppercase @ ''0123456789'' @ ''+-.''"

text \<open>\<open>c.isascii() and c.isalpha()\<close>, and \<open>str.lower\<close> on a character of \<open>scheme_chars\<close>.\<close>

definition isascii_alpha :: "char \<Rightarrow> bool" where
  "isascii_alpha c \<longleftrightarrow> c \<in> set (ascii_lowercase @ ascii_uppercase)"

definition lower_char :: "char \<Rightarrow> char" where
  "lower_char c = (case map_of (zip ascii_uppercase ascii_lowercase) c of None \<Rightarrow> c | Some l \<Rightarrow> l)"

definition c0_control_or_space :: "char \<Rightarrow> bool" where
  "c0_control_or_space c \<longleftrightarrow> (of_char c :: nat) \<le> 32"

definition remove_unsafe :: "string \<Rightarrow> string" where
  "remove_unsafe s = filter (\<lambda>c. c \<notin> set [CHR 0x09, CHR 0x0D, CHR 0x0A]) s"

definition splitnetloc :: "string \<Rightarrow> nat \<Rightarrow> string \<times> string" where
  "splitnetloc u start =
     (let delim = fold (\<lambda>c d. let w = str_find_from u c start in if w \<ge> 0 then min d w else d)
                    ''/?#'' (int (length u))
      in (take (nat delim - start) (drop start u), slice_from u delim))"

text \<open>
  \<open>_check_bracketed_host\<close>: a host that starts with \<open>v\<close> has to match the regular expression
  \<open>\Av[a-fA-F0-9]+\..+\Z\<close> (\<open>ipvfuture_match\<close>); any other host has to be an IPv6 address.
\<close>

definition ipvfuture_match :: "string \<Rightarrow> bool" where
  "ipvfuture_match hostname \<longleftrightarrow>
     take 1 hostname = ''v'' \<and>
     (let digits = takeWhile (\<lambda>c. c \<in> set hex_digits) (drop 1 hostname);
          rest = dropWhile (\<lambda>c. c \<in> set hex_digits) (drop 1 hostname)
      in digits \<noteq> [] \<and> take 1 rest = ''.'' \<and> drop 1 rest \<noteq> [] \<and>
         CHR 0x0A \<notin> set (drop 1 rest))"

definition check_bracketed_host :: "string \<Rightarrow> exn + unit" where
  "check_bracketed_host hostname =
     (if take 1 hostname = ''v'' then
        (if \<not> ipvfuture_match hostname then Inl (ValueError ''IPvFuture address is invalid'')
         else Inr ())
      else if valid_ipv4 hostname then
        Inl (ValueError ''An IPv4 address cannot be in brackets'')
      else if valid_ipv6 hostname then Inr ()
      else Inl (ValueError
                 (py_repr hostname @ '' does not appear to be an IPv4 or IPv6 address'')))"

text \<open>
  \<open>urlsplit\<close> in three parts: \<open>urlsplit_scheme\<close> removes the leading control characters and
  the tab and newline characters and finds the scheme (it yields the scheme and the rest
  of the URL); \<open>urlsplit_netloc\<close> separates the network location, if the rest starts with
  \<open>//\<close>, and raises when its brackets are wrong; \<open>urlsplit\<close> then separates the fragment and
  the query.
\<close>

definition urlsplit_scheme :: "string \<Rightarrow> string \<Rightarrow> string \<times> string" where
  "urlsplit_scheme url0 scheme0 =
     (let url1 = remove_unsafe (dropWhile c0_control_or_space url0);
          scheme1 = remove_unsafe
            (rev (dropWhile c0_control_or_space (rev (dropWhile c0_control_or_space scheme0))));
          i = str_find url1 CHR '':''
      in if i > 0 \<and> isascii_alpha (hd url1) \<and>
            list_all (\<lambda>c. c \<in> set scheme_chars) (slice_to url1 i)
         then (map lower_char (slice_to url1 i), slice_from url1 (i + 1))
         else (scheme1, url1))"

definition urlsplit_netloc :: "string \<Rightarrow> exn + string \<times> string" where
  "urlsplit_netloc url2 =
     (if take 2 url2 = ''//'' then
        (case splitnetloc url2 2 of
           (netloc, url3) \<Rightarrow>
             if (CHR ''['' \<in> set netloc \<and> CHR '']'' \<notin> set netloc) \<or>
                (CHR '']'' \<in> set netloc \<and> CHR ''['' \<notin> set netloc)
             then Inl (ValueError ''Invalid IPv6 URL'')
             else if CHR ''['' \<in> set netloc \<and> CHR '']'' \<in> set netloc then
               (case check_bracketed_host
                       (fst (split1 (snd (split1 netloc CHR ''['')) CHR '']'')) of
                  Inl e \<Rightarrow> Inl e
                | Inr _ \<Rightarrow> Inr (netloc, url3))
             else Inr (netloc, url3))
      else Inr ([], url2))"

definition urlsplit ::
    "string \<Rightarrow> string \<Rightarrow> exn + string \<times> string \<times> string \<times> string \<times> string" where
  "urlsplit url0 scheme0 =
     (case urlsplit_scheme url0 scheme0 of
        (scheme2, url2) \<Rightarrow>
          (case urlsplit_netloc url2 of
             Inl e \<Rightarrow> Inl e
           | Inr (netloc, url3) \<Rightarrow>
               (let (url4, fragment) =
                      (if CHR ''#'' \<in> set url3 then split1 url3 CHR ''#'' else (url3, []));
                    (url5, query) =
                      (if CHR ''?'' \<in> set url4 then split1 url4 CHR ''?'' else (url4, []))
                in Inr (scheme2, netloc, url5, query, fragment))))"

definition splitparams :: "string \<Rightarrow> string \<times> string" where
  "splitparams u =
     (if CHR ''/'' \<in> set u then
        (let i = str_find_from u CHR '';'' (nat (str_rfind u CHR ''/''))
         in if i < 0 then (u, []) else (slice_to u i, slice_from u (i + 1)))
      else (let i = str_find u CHR '';'' in (slice_to u i, slice_from u (i + 1))))"

record parse_result =
  scheme :: string
  netloc :: string
  path :: string
  params :: string
  query :: string
  fragment :: string

definition urlparse :: "string \<Rightarrow> string \<Rightarrow> exn + parse_result" where
  "urlparse url0 scheme0 =
     (case urlsplit url0 scheme0 of
        Inl e \<Rightarrow> Inl e
      | Inr (sch, loc, u, q, frag) \<Rightarrow>
          (let (u1, ps) = (if sch \<in> set uses_params \<and> CHR '';'' \<in> set u
                           then splitparams u else (u, []))
           in Inr \<lparr>scheme = sch, netloc = loc, path = u1, params = ps, query = q,
                    fragment = frag\<rparr>))"

definition urlunsplit :: "string \<times> string \<times> string \<times> string \<times> string \<Rightarrow> string" where
  "urlunsplit components =
     (case components of
        (sch, loc, u, q, frag) \<Rightarrow>
          (let u1 = (if loc \<noteq> [] \<or> (sch \<noteq> [] \<and> sch \<in> set uses_netloc) \<or> take 2 u = ''//''
                     then ''//'' @ loc @ (if u \<noteq> [] \<and> take 1 u \<noteq> ''/'' then ''/'' @ u else u)
                     else u);
               u2 = (if sch \<noteq> [] then sch @ '':'' @ u1 else u1);
               u3 = (if q \<noteq> [] then u2 @ ''?'' @ q else u2)
           in if frag \<noteq> [] then u3 @ ''#'' @ frag else u3))"

definition urlunparse :: "parse_result \<Rightarrow> string" where
  "urlunparse p =
     urlunsplit (scheme p, netloc p,
       (if params p \<noteq> [] then path p @ '';'' @ params p else path p), query p, fragment p)"

text \<open>The loop of \<open>urljoin\<close> over the path segments, \<open>resolved_path\<close> being the accumulator.\<close>

fun resolve_segments :: "string list \<Rightarrow> string list \<Rightarrow> string list" where
  "resolve_segments [] resolved_path = resolved_path"
| "resolve_segments (seg # segments) resolved_path =
     (if seg = ''..'' then resolve_segments segments (butlast resolved_path)
      else if seg = ''.'' then resolve_segments segments resolved_path
      else resolve_segments segments (resolved_path @ [seg]))"

text \<open>
  \<open>urljoin\<close>, once both arguments are parsed (\<open>b\<close> is the parsed base, \<open>u\<close> the parsed URL),
  and \<open>urljoin\<close> itself, which parses them and passes a \<open>ValueError\<close> of either on.
\<close>

definition urljoin_parsed :: "parse_result \<Rightarrow> parse_result \<Rightarrow> string \<Rightarrow> string" where
  "urljoin_parsed b u url0 =
     (if scheme u \<noteq> scheme b \<or> scheme u \<notin> set uses_relative then url0
      else if scheme u \<in> set uses_netloc \<and> netloc u \<noteq> [] then urlunparse u
      else
        (let loc = (if scheme u \<in> set uses_netloc then netloc b else netloc u)
         in if path u = [] \<and> params u = [] then
              urlunparse (u\<lparr>netloc := loc, path := path b, params := params b,
                 query := (if query u = [] then query b else query u)\<rparr>)
            else
              (let base_parts0 = split_on CHR ''/'' (path b);
                   base_parts = (if last base_parts0 \<noteq> [] then butlast base_parts0
                                 else base_parts0);
                   segments =
                     (if take 1 (path u) = ''/'' then split_on CHR ''/'' (path u)
                      else
                        (let segs = base_parts @ split_on CHR ''/'' (path u)
                         in take 1 segs @ filter (\<lambda>s. s \<noteq> []) (butlast (drop 1 segs))
                            @ (if length segs > 1 then [last segs] else [])));
                   resolved0 = resolve_segments segments [];
                   resolved_path = (if last segments \<in> {''.'', ''..''} then resolved0 @ [[]]
                                    else resolved0);
                   joined = str_join ''/'' resolved_path
               in urlunparse (u\<lparr>netloc := loc,
                    path := (if joined = [] then ''/'' else joined)\<rparr>))))"

definition urljoin :: "string \<Rightarrow> string \<Rightarrow> exn + string" where
  "urljoin base url0 =
     (if base = [] then Inr url0
      else if url0 = [] then Inr base
      else
        (case urlparse base [] of
           Inl e \<Rightarrow> Inl e
         | Inr b \<Rightarrow>
             (case urlparse url0 (scheme b) of
                Inl e \<Rightarrow> Inl e
              | Inr u \<Rightarrow> Inr (urljoin_parsed b u url0))))"

section \<open>\<open>is_http_url\<close> and \<open>extract_links\<close>\<close>

text \<open>
  \<open>is_http_url\<close> has no handler for the \<open>ValueError\<close> of \<open>urlparse\<close> (line 32), and
  \<open>extract_links\<close> has none for that of \<open>is_http_url\<close> and \<open>urljoin\<close> (lines 52 and 54): each
  passes it on.
\<close>

definition is_http_url :: "string \<Rightarrow> exn + bool" where
  "is_http_url href0 =
     (if href0 = [] then Inr False
      else
        (let href = strip href0
         in case urlparse href [] of
              Inl e \<Rightarrow> Inl e
            | Inr parsed \<Rightarrow>
                if scheme parsed \<in> {''http'', ''https''} then Inr True
                else if scheme parsed = [] \<and>
                        \<not> startswith href [''#'', ''mailto:'', ''tel:'', ''javascript:'', ''data:'']
                  then Inr True
                else Inr False))"

text \<open>
  The HTML parser is a parameter: \<open>anchors html\<close> is the list of the \<open>href\<close> values of the
  \<open>a\<close> elements that carry one, in document order, as
  \<open>BeautifulSoup(html, "html.parser").find_all("a", href=True)\<close> yields them.
  \<open>extract_loop\<close> is the \<open>for\<close> loop of \<open>extract_links\<close> with its two variables;
  \<open>extract_links\<close> returns the sorted links and the two lines it prints, which it prints
  after the loop.
\<close>

type_synonym html_parser = "string \<Rightarrow> string list"

fun extract_loop ::
    "string \<Rightarrow> string list \<Rightarrow> string set \<times> nat \<Rightarrow> exn + string set \<times> nat" where
  "extract_loop base_url [] (links, raw_count) = Inr (links, raw_count)"
| "extract_loop base_url (raw_href # rest) (links, raw_count) =
     (case is_http_url raw_href of
        Inl e \<Rightarrow> Inl e
      | Inr navigable \<Rightarrow>
          if \<not> navigable then extract_loop base_url rest (links, raw_count + 1)
          else
            (case urljoin base_url raw_href of
               Inl e \<Rightarrow> Inl e
             | Inr abs_url \<Rightarrow>
                 extract_loop base_url rest (insert abs_url links, raw_count + 1)))"

definition extract_links ::
    "html_parser \<Rightarrow> string \<Rightarrow> string \<Rightarrow> exn + string list \<times> string list" where
  "extract_links anchors html base_url =
     (case extract_loop base_url (anchors html) ({}, 0) of
        Inl e \<Rightarrow> Inl e
      | Inr (links, raw_count) \<Rightarrow>
          Inr (sorted_list_of_set links,
               [''[INFO] Raw <a> tags with href found: '' @ str_int (int raw_count),
                ''[INFO] Unique checkable HTTP(S) links: '' @ str_int (int (card links))]))"

section \<open>\<open>main\<close>\<close>

text \<open>
  The headless browser is a parameter: given the URL and the timeout it yields the
  rendered HTML or raises. \<open>raise_for_status\<close> is the method of \<open>requests.Response\<close>: an
  \<open>HTTPError\<close>, which is a \<open>RequestException\<close>, for a status from 400 to 599.
\<close>

type_synonym browser = "string \<Rightarrow> int \<Rightarrow> exn + string"

definition get_rendered_html :: "browser \<Rightarrow> string \<Rightarrow> int \<Rightarrow> exn + string" where
  "get_rendered_html chromium u timeout_ms = chromium u timeout_ms"

definition raise_for_status :: "response \<Rightarrow> exn + unit" where
  "raise_for_status resp =
     (if 400 \<le> status_code resp \<and> status_code resp < 500 then
        Inl (RequestException (str_int (status_code resp) @ '' Client Error: '' @ reason resp
               @ '' for url: '' @ resp_url resp))
      else if 500 \<le> status_code resp \<and> status_code resp < 600 then
        Inl (RequestException (str_int (status_code resp) @ '' Server Error: '' @ reason resp
               @ '' for url: '' @ resp_url resp))
      else Inr ())"

text \<open>\<open>exn_str\<close> is \<open>str(e)\<close>, the text an f-string writes for an exception.\<close>

fun exn_str :: "exn \<Rightarrow> string" where
  "exn_str (RequestException m) = m"
| "exn_str (ValueError m) = m"
| "exn_str (OtherException m) = m"

text \<open>
  How a run of \<open>main\<close> ends: it returns, it calls \<open>sys.exit\<close>, or an exception leaves it.
  \<open>exit_status\<close> is the exit code the interpreter gives the process for each. What
  \<open>print\<close> writes is a list of strings, one for each call, in order.
\<close>

datatype completion = Returned | SystemExit int | Raised exn


text \<open>The body of the \<open>try\<close> of the \<open>--no-js\<close> branch (lines 122 to 124).\<close>

definition main_fetch_raw :: "network \<Rightarrow> session \<Rightarrow> string \<Rightarrow> (exn + string) \<times> session" where
  "main_fetch_raw net s u =
     (case session_get net s u True 15 of
        (Inl e, s1) \<Rightarrow> (Inl e, s1)
      | (Inr resp, s1) \<Rightarrow>
          (case raise_for_status resp of
             Inl e \<Rightarrow> (Inl e, s1)
           | Inr _ \<Rightarrow> (Inr (resp_text resp), s1)))"

text \<open>
  The \<open>for\<close> loop of lines 148 to 155 (\<open>total_links\<close> is the variable \<open>total\<close>), with
  the session, the index \<open>i\<close>, the list
  \<open>broken_links\<close> and the printed lines as its variables. An exception that leaves
  \<open>check_link\<close> leaves the loop.
\<close>

fun main_loop ::
    "network \<Rightarrow> nat \<Rightarrow> session \<Rightarrow> nat \<Rightarrow> string list \<Rightarrow> (string \<times> string) list \<Rightarrow> string list
      \<Rightarrow> exn option \<times> session \<times> (string \<times> string) list \<times> string list" where
  "main_loop net total_links s i [] broken_links out = (None, s, broken_links, out)"
| "main_loop net total_links s i (link # rest) broken_links out =
     (let out1 = out @ [''[CHECK] ('' @ str_int (int i) @ ''/'' @ str_int (int total_links) @ '') '' @ link]
      in case check_link net s link 10 of
           (Inl e, s1) \<Rightarrow> (Some e, s1, broken_links, out1)
         | (Inr (is_broken, info), s1) \<Rightarrow>
             (if is_broken
              then main_loop net total_links s1 (i + 1) rest (broken_links @ [(link, info)])
                     (out1 @ [''  -> BROKEN: '' @ info])
              else main_loop net total_links s1 (i + 1) rest broken_links
                     (out1 @ [''  -> OK: '' @ info])))"

text \<open>The summary block (lines 157 to 164).\<close>

definition main_summary :: "nat \<Rightarrow> (string \<times> string) list \<Rightarrow> string list" where
  "main_summary total_links broken_links =
     [CHR 0x0A # ''=== SUMMARY ==='',
      ''Total links checked: '' @ str_int (int total_links),
      ''Broken links found: '' @ str_int (int (length broken_links))]
     @ (if broken_links \<noteq> []
        then (CHR 0x0A # ''Broken links:'')
             # map (\<lambda>(link, info). ''- '' @ link @ ''  ['' @ info @ '']'') broken_links
        else [])"

text \<open>
  Lines 137 to 164: what \<open>main\<close> does once it has the HTML of the page. A \<open>ValueError\<close>
  that leaves \<open>extract_links\<close> leaves \<open>main\<close>.
\<close>

definition main_links ::
    "html_parser \<Rightarrow> network \<Rightarrow> session \<Rightarrow> string \<Rightarrow> string \<Rightarrow> string list
      \<Rightarrow> completion \<times> string list" where
  "main_links anchors net s u html out =
     (let out0 = out @ [''[INFO] Extracting links from DOM...'']
      in case extract_links anchors html u of
           Inl e \<Rightarrow> (Raised e, out0)
         | Inr (links, printed) \<Rightarrow>
             (let out1 = out0 @ printed
              in if links = [] then
                   (SystemExit 0,
                    out1 @ [''[WARN] 0 checkable links found after rendering. '' @
                            ''Inspect the HTML or relax filters.''])
                 else
                   (let total_links = length links;
                        out2 = out1 @ [''[INFO] Starting HTTP checks for ''
                                       @ str_int (int total_links) @ '' link(s)...'']
                    in case main_loop net total_links s 1 links [] out2 of
                         (Some e, s1, broken_links, out3) \<Rightarrow> (Raised e, out3)
                       | (None, s1, broken_links, out3) \<Rightarrow>
                           (Returned, out3 @ main_summary total_links broken_links))))"

text \<open>
  Lines 118 to 135: how \<open>main\<close> gets the HTML of the page. Either the run ends here
  (\<open>Inl\<close>: how it ends and what it has printed), or it goes on with the HTML, the session
  and what it has printed so far (\<open>Inr\<close>). \<open>except requests.RequestException\<close> lets any
  other exception through; \<open>except Exception\<close> catches both kinds.
\<close>

definition main_page ::
    "browser \<Rightarrow> network \<Rightarrow> session \<Rightarrow> string \<Rightarrow> bool
      \<Rightarrow> (completion \<times> string list) + (string \<times> session \<times> string list)" where
  "main_page chromium net session u no_js =
     (if no_js then
        (let out = [''[INFO] Fetching raw HTML (no JS) from: '' @ u]
         in case main_fetch_raw net session u of
              (Inl (RequestException e), s1) \<Rightarrow>
                Inl (SystemExit 1, out @ [''[ERROR] Could not fetch '' @ u @ '': '' @ e])
            | (Inl e, s1) \<Rightarrow> Inl (Raised e, out)
            | (Inr html, s1) \<Rightarrow> Inr (html, s1, out))
      else
        (let out = [''[INFO] Rendering page with Playwright (Chromium): '' @ u]
         in case get_rendered_html chromium u 30000 of
              Inl e \<Rightarrow>
                Inl (SystemExit 1,
                     out @ [''[ERROR] Playwright failed to render page: '' @ exn_str e])
            | Inr html \<Rightarrow> Inr (html, session, out)))"

text \<open>
  \<open>main\<close>, for the parsed arguments \<open>url\<close> and \<open>no_js\<close>: the result is how the run ends
  and what it has printed.
\<close>

definition main ::
    "browser \<Rightarrow> html_parser \<Rightarrow> network \<Rightarrow> string \<Rightarrow> bool \<Rightarrow> completion \<times> string list" where
  "main chromium anchors net u no_js =
     (let session = create_session
      in case main_page chromium net session u no_js of
           Inl ended \<Rightarrow> ended
         | Inr (html, s1, out) \<Rightarrow> main_links anchors net s1 u html out)"

section \<open>The results of a run, as the specification names them\<close>

text \<open>
  The specification's sequence of \<open>LinkResult\<close>s: each link with the verdict and the
  description that \<open>check_link\<close> returns for it, the links being checked one after the
  other with the session as the previous check left it. The sequence ends where a check
  raises. \<open>broken_results\<close> are the entries whose verdict is broken, \<open>broken_line\<close> is the
  line the summary prints for one of them.
\<close>

fun link_results :: "network \<Rightarrow> session \<Rightarrow> string list \<Rightarrow> (string \<times> bool \<times> string) list" where
  "link_results net s [] = []"
| "link_results net s (link # rest) =
     (case check_link net s link 10 of
        (Inl e, s1) \<Rightarrow> []
      | (Inr (is_broken, info), s1) \<Rightarrow> (link, is_broken, info) # link_results net s1 rest)"

definition broken_results :: "(string \<times> bool \<times> string) list \<Rightarrow> (string \<times> bool \<times> string) list" where
  "broken_results results = filter (\<lambda>(link, is_broken, info). is_broken) results"

definition broken_line :: "string \<times> bool \<times> string \<Rightarrow> string" where
  "broken_line result = (case result of (link, is_broken, info) \<Rightarrow> ''- '' @ link @ ''  ['' @ info @ '']'')"

section \<open>Stand-ins for the browser, the parser and the network\<close>

text \<open>
  \<open>stub_network h g\<close> answers every HEAD request with \<open>h\<close> and every GET request with
  \<open>g\<close>; \<open>http_status c\<close> is a response with status code \<open>c\<close>; \<open>table_network\<close> answers
  a request with the status code the table gives for its URL, and with 200 otherwise.
  \<open>stub_browser html\<close> renders every page as \<open>html\<close>, and \<open>stub_parser hrefs\<close> finds the
  anchors \<open>hrefs\<close> in every document.
\<close>

definition stub_network :: "(exn + response) \<Rightarrow> (exn + response) \<Rightarrow> network" where
  "stub_network h g = (\<lambda>_ r. if req_method r = HEAD then h else g)"

definition http_status :: "int \<Rightarrow> exn + response" where
  "http_status c = Inr \<lparr>status_code = c, reason = [], resp_url = [], resp_text = []\<rparr>"

definition table_network :: "(string \<times> int) list \<Rightarrow> network" where
  "table_network table =
     (\<lambda>_ r. http_status (case map_of table (req_url r) of None \<Rightarrow> 200 | Some c \<Rightarrow> c))"

definition stub_browser :: "string \<Rightarrow> browser" where
  "stub_browser html = (\<lambda>_ _. Inr html)"

definition stub_parser :: "string list \<Rightarrow> html_parser" where
  "stub_parser hrefs = (\<lambda>_. hrefs)"

section \<open>Properties of \<open>check_link\<close>\<close>

lemmas check_link_defs =
  check_link_def check_link_head_def check_link_get_def
  session_head_def session_get_def session_request_def

lemmas str_int_eval = str_int_def digits10.simps digit_char_def



text \<open>
  C1, as the code behaves: the test \<open>code >= 400\<close> comes before the test for 405 and 403,
  so a HEAD probe answered with 405 or with 403 is reported broken from the HEAD result,
  and the GET request, which would have been answered with 200, is never sent.
\<close>

theorem check_link_405_head_verdict:
  "check_link (stub_network (http_status 405) (http_status 200)) create_session
       ''https://ok.example/x'' 10 =
     (Inr (True, ''HTTP 405 (HEAD)''),
      create_session\<lparr>sent :=
        [\<lparr>req_method = HEAD, req_url = ''https://ok.example/x'', req_redirects = True,
          req_timeout = 10\<rparr>]\<rparr>) \<and>
   check_link (stub_network (http_status 403) (http_status 200)) create_session
       ''https://ok.example/x'' 10 =
     (Inr (True, ''HTTP 403 (HEAD)''),
      create_session\<lparr>sent :=
        [\<lparr>req_method = HEAD, req_url = ''https://ok.example/x'', req_redirects = True,
          req_timeout = 10\<rparr>]\<rparr>)"
  by (simp add: check_link_defs stub_network_def http_status_def create_session_def str_int_eval)

text \<open>
  When the HEAD probe and then the GET fetch both fail with a
  \<open>RequestException\<close>, \<open>check_link\<close> returns \<open>(True, "Error: <message of the GET failure>")\<close>.
\<close>

lemma check_link_error_verdict:
  assumes "net (sent s) \<lparr>req_method = HEAD, req_url = u, req_redirects = True, req_timeout = t\<rparr>
             = Inl (RequestException e1)"
    and "net (sent s @ [\<lparr>req_method = HEAD, req_url = u, req_redirects = True, req_timeout = t\<rparr>])
             \<lparr>req_method = GET, req_url = u, req_redirects = True, req_timeout = t\<rparr>
             = Inl (RequestException e2)"
  shows "check_link net s u t =
           (Inr (True, ''Error: '' @ e2),
            s\<lparr>sent := sent s @
               [\<lparr>req_method = HEAD, req_url = u, req_redirects = True, req_timeout = t\<rparr>,
                \<lparr>req_method = GET, req_url = u, req_redirects = True, req_timeout = t\<rparr>]\<rparr>)"
  using assms by (simp add: check_link_defs)

text \<open>
  C5, as the code behaves: both handlers of \<open>check_link\<close> catch \<open>requests.RequestException\<close>
  only. For a host with a label of more than 63 characters \<open>urllib3\<close> raises
  \<open>LocationParseError\<close>, which is no \<open>RequestException\<close> and which \<open>requests\<close> lets through:
  raised by the HEAD probe it leaves \<open>check_link\<close> before any GET, and raised by the GET
  fetch after a failed HEAD probe it leaves \<open>check_link\<close> too. No pair is returned.
\<close>

theorem check_link_malformed_host_raises:
  "check_link
     (stub_network (Inl (OtherException (''Failed to parse: '' @ [CHR 0x27] @ ''aaaaaaaaaaaaaaaaaaaaaaaaaaaaaaaaaaaaaaaaaaaaaaaaaaaaaaaaaaaaaaaa.com'' @ [CHR 0x27] @ '', label empty or too long''))) (http_status 200))
     create_session ''http://aaaaaaaaaaaaaaaaaaaaaaaaaaaaaaaaaaaaaaaaaaaaaaaaaaaaaaaaaaaaaaaa.com/'' 10 =
     (Inl (OtherException (''Failed to parse: '' @ [CHR 0x27] @ ''aaaaaaaaaaaaaaaaaaaaaaaaaaaaaaaaaaaaaaaaaaaaaaaaaaaaaaaaaaaaaaaa.com'' @ [CHR 0x27] @ '', label empty or too long'')),
      create_session\<lparr>sent :=
        [\<lparr>req_method = HEAD, req_url = ''http://aaaaaaaaaaaaaaaaaaaaaaaaaaaaaaaaaaaaaaaaaaaaaaaaaaaaaaaaaaaaaaaa.com/'', req_redirects = True, req_timeout = 10\<rparr>]\<rparr>) \<and>
   check_link
     (stub_network (Inl (RequestException ''HEAD refused'')) (Inl (OtherException (''Failed to parse: '' @ [CHR 0x27] @ ''aaaaaaaaaaaaaaaaaaaaaaaaaaaaaaaaaaaaaaaaaaaaaaaaaaaaaaaaaaaaaaaa.com'' @ [CHR 0x27] @ '', label empty or too long''))))
     create_session ''http://aaaaaaaaaaaaaaaaaaaaaaaaaaaaaaaaaaaaaaaaaaaaaaaaaaaaaaaaaaaaaaaa.com/'' 10 =
     (Inl (OtherException (''Failed to parse: '' @ [CHR 0x27] @ ''aaaaaaaaaaaaaaaaaaaaaaaaaaaaaaaaaaaaaaaaaaaaaaaaaaaaaaaaaaaaaaaa.com'' @ [CHR 0x27] @ '', label empty or too long'')),
      create_session\<lparr>sent :=
        [\<lparr>req_method = HEAD, req_url = ''http://aaaaaaaaaaaaaaaaaaaaaaaaaaaaaaaaaaaaaaaaaaaaaaaaaaaaaaaaaaaaaaaa.com/'', req_redirects = True, req_timeout = 10\<rparr>,
         \<lparr>req_method = GET, req_url = ''http://aaaaaaaaaaaaaaaaaaaaaaaaaaaaaaaaaaaaaaaaaaaaaaaaaaaaaaaaaaaaaaaa.com/'', req_redirects = True, req_timeout = 10\<rparr>]\<rparr>)"
  by (simp add: check_link_defs stub_network_def create_session_def)

section \<open>Properties of \<open>is_http_url\<close> and \<open>extract_links\<close>\<close>

lemma urlparse_scheme:
  "urlparse x d = Inr p \<Longrightarrow> scheme p = fst (urlsplit_scheme x d)"
  by (auto simp: urlparse_def urlsplit_def Let_def split_beta split: sum.splits)

lemmas scheme_eval =
  urlsplit_scheme_def remove_unsafe_def c0_control_or_space_def str_find_def
  slice_to_def isascii_alpha_def ascii_lowercase_def ascii_uppercase_def scheme_chars_def
  lower_char_def

lemma scheme_hash: "fst (urlsplit_scheme (''#'' @ r) []) = []"
  by (simp add: scheme_eval)

lemma scheme_mailto: "fst (urlsplit_scheme (''mailto:'' @ r) []) = ''mailto''"
  by (simp add: scheme_eval)

lemma scheme_tel: "fst (urlsplit_scheme (''tel:'' @ r) []) = ''tel''"
  by (simp add: scheme_eval)

lemma scheme_javascript: "fst (urlsplit_scheme (''javascript:'' @ r) []) = ''javascript''"
  by (simp add: scheme_eval)

lemma scheme_data: "fst (urlsplit_scheme (''data:'' @ r) []) = ''data''"
  by (simp add: scheme_eval)

text \<open>\<open>strip\<close> keeps a prefix that neither starts nor ends with white space.\<close>

lemma rstrip_keeps_prefix:
  assumes "p \<noteq> []" and "\<not> isspace (last p)"
  shows "\<exists>r. rstrip (p @ rest) = p @ r"
proof (cases "\<forall>c \<in> set rest. isspace c")
  case True
  have "dropWhile isspace (rev p) = rev p"
    using assms by (cases "rev p") (auto simp: last_rev[symmetric] hd_rev)
  then have "rstrip (p @ rest) = p @ []"
    using True by (simp add: rstrip_def dropWhile_append)
  then show ?thesis by blast
next
  case False
  then have "rstrip (p @ rest) = p @ rev (dropWhile isspace (rev rest))"
    by (auto simp: rstrip_def dropWhile_append)
  then show ?thesis by blast
qed

lemma strip_keeps_prefix:
  assumes "p \<noteq> []" and "\<not> isspace (hd p)" and "\<not> isspace (last p)"
  shows "\<exists>r. strip (p @ rest) = p @ r"
proof -
  have "lstrip (p @ rest) = p @ rest"
    using assms(1,2) by (cases p) (simp_all add: lstrip_def)
  then show ?thesis
    using rstrip_keeps_prefix [OF assms(1,3)] by (simp add: strip_def)
qed

lemma startswith_cases:
  assumes "startswith h [''#'', ''mailto:'', ''tel:'', ''javascript:'', ''data:'']"
  obtains p r where "h = p @ r"
    and "p \<in> set [''#'', ''mailto:'', ''tel:'', ''javascript:'', ''data:'']"
proof -
  from assms obtain p
    where p: "p \<in> set [''#'', ''mailto:'', ''tel:'', ''javascript:'', ''data:'']"
      and t: "take (length p) h = p"
    unfolding startswith_def list_ex_iff by blast
  have "h = p @ drop (length p) h"
    using t by (metis append_take_drop_id)
  with p that show thesis by blast
qed

text \<open>
  An href with one of the five prefixes is never accepted: \<open>is_http_url\<close> returns \<open>False\<close>
  for it, or \<open>urlparse\<close> raises.
\<close>

lemma is_http_url_rejected:
  assumes "startswith h [''#'', ''mailto:'', ''tel:'', ''javascript:'', ''data:'']"
  shows "is_http_url h \<noteq> Inr True"
proof -
  from assms obtain p r where h: "h = p @ r"
    and p: "p \<in> set [''#'', ''mailto:'', ''tel:'', ''javascript:'', ''data:'']"
    by (rule startswith_cases)
  from p have "p \<noteq> []" "\<not> isspace (hd p)" "\<not> isspace (last p)"
    by (auto simp: isspace_def)
  then obtain r' where s: "strip h = p @ r'"
    using strip_keeps_prefix h by blast
  from p have sw: "startswith (p @ r') [''#'', ''mailto:'', ''tel:'', ''javascript:'', ''data:'']"
    by (auto simp: startswith_def)
  from p have sch: "fst (urlsplit_scheme (p @ r') []) \<notin> {''http'', ''https''}"
    using scheme_hash [of r'] scheme_mailto [of r'] scheme_tel [of r']
      scheme_javascript [of r'] scheme_data [of r']
    by auto
  show ?thesis
  proof (cases "urlparse (p @ r') []")
    case (Inl e)
    with s show ?thesis by (simp add: is_http_url_def Let_def)
  next
    case (Inr parsed)
    from urlparse_scheme [OF Inr] sch have "scheme parsed \<notin> {''http'', ''https''}"
      by simp
    with Inr sw s show ?thesis by (simp add: is_http_url_def Let_def)
  qed
qed

text \<open>
  The loop, when it ends without an exception, has added the resolved URL of every
  accepted href and has counted every href.
\<close>

lemma extract_loop_Inr:
  "extract_loop base_url hs (links, n) = Inr (links', n') \<Longrightarrow>
     links' = links \<union> {u. \<exists>h \<in> set hs. is_http_url h = Inr True \<and> urljoin base_url h = Inr u} \<and>
     n' = n + length hs"
proof (induction hs arbitrary: links n)
  case Nil
  then show ?case by simp
next
  case (Cons h rest)
  show ?case
  proof (cases "is_http_url h")
    case (Inl e)
    with Cons.prems show ?thesis by simp
  next
    case (Inr navigable)
    show ?thesis
    proof (cases navigable)
      case False
      with Inr Cons.prems have "extract_loop base_url rest (links, n + 1) = Inr (links', n')"
        by simp
      from Cons.IH [OF this] Inr False show ?thesis by auto
    next
      case True
      show ?thesis
      proof (cases "urljoin base_url h")
        case (Inl e)
        with Inr True Cons.prems show ?thesis by simp
      next
        case (Inr abs_url)
        with \<open>is_http_url h = Inr navigable\<close> True Cons.prems
        have "extract_loop base_url rest (insert abs_url links, n + 1) = Inr (links', n')"
          by simp
        from Cons.IH [OF this] Inr \<open>is_http_url h = Inr navigable\<close> True show ?thesis by auto
      qed
    qed
  qed
qed


lemma extract_links_Inr:
  assumes "extract_links anchors html base_url = Inr (links, printed)"
  shows "links = sorted_list_of_set
           {u. \<exists>h \<in> set (anchors html). is_http_url h = Inr True \<and> urljoin base_url h = Inr u}"
proof -
  from assms obtain ls n where l: "extract_loop base_url (anchors html) ({}, 0) = Inr (ls, n)"
    and s: "links = sorted_list_of_set ls"
    by (auto simp: extract_links_def split: sum.splits)
  from extract_loop_Inr [OF l] s show ?thesis by simp
qed

text \<open>
  Without the hrefs that are never accepted, the loop still ends without an exception,
  with the same links.
\<close>

lemma extract_loop_filter:
  assumes r: "\<And>h. R h \<Longrightarrow> is_http_url h \<noteq> Inr True"
  shows "extract_loop base_url hs (links, n) = Inr (links', n') \<Longrightarrow>
     \<exists>m'. extract_loop base_url (filter (\<lambda>x. \<not> R x) hs) (links, m) = Inr (links', m')"
proof (induction hs arbitrary: links n m)
  case Nil
  then show ?case by simp
next
  case (Cons h rest)
  show ?case
  proof (cases "is_http_url h")
    case (Inl e)
    with Cons.prems show ?thesis by simp
  next
    case (Inr navigable)
    show ?thesis
    proof (cases navigable)
      case False
      with Inr Cons.prems have "extract_loop base_url rest (links, n + 1) = Inr (links', n')"
        by simp
      from Cons.IH [OF this] Inr False show ?thesis by simp
    next
      case True
      with Inr r have nr: "\<not> R h" by auto
      show ?thesis
      proof (cases "urljoin base_url h")
        case (Inl e)
        with Inr True Cons.prems show ?thesis by simp
      next
        case (Inr abs_url)
        with \<open>is_http_url h = Inr navigable\<close> True Cons.prems
        have "extract_loop base_url rest (insert abs_url links, n + 1) = Inr (links', n')"
          by simp
        from Cons.IH [OF this] Inr \<open>is_http_url h = Inr navigable\<close> True nr show ?thesis
          by simp
      qed
    qed
  qed
qed

lemma extract_links_filter:
  assumes r: "\<And>h. R h \<Longrightarrow> is_http_url h \<noteq> Inr True"
    and e: "extract_links anchors html base_url = Inr (links, printed)"
  shows "\<exists>printed'. extract_links (\<lambda>d. filter (\<lambda>x. \<not> R x) (anchors d)) html base_url
           = Inr (links, printed')"
proof -
  from e obtain ls n where l: "extract_loop base_url (anchors html) ({}, 0) = Inr (ls, n)"
    and s: "links = sorted_list_of_set ls"
    by (auto simp: extract_links_def split: sum.splits)
  from extract_loop_filter [where R = R, OF r l] obtain m' where
    "extract_loop base_url (filter (\<lambda>x. \<not> R x) (anchors html)) ({}, 0) = Inr (ls, m')"
    by blast
  with s show ?thesis by (simp add: extract_links_def)
qed

text \<open>
  An href with a rejected prefix can make \<open>urlparse\<close> raise: then \<open>is_http_url\<close> raises,
  and so does \<open>extract_links\<close> for a document with such an anchor.
\<close>

lemma is_http_url_raises:
  "is_http_url ''mailto://['' = Inl (ValueError ''Invalid IPv6 URL'') \<and>
   extract_links (stub_parser [''/a'', ''mailto://['']) ''<html>'' ''https://site.test''
     = Inl (ValueError ''Invalid IPv6 URL'')"
  by code_simp

text \<open>
  C2, as the code behaves: the empty href is rejected, but \<open>is_http_url\<close> tests for the
  empty string before it strips the value, so an href that is one space is accepted as a
  relative reference, and \<open>extract_links\<close> returns the URL it resolves to, which is the
  page itself.
\<close>

theorem whitespace_href_accepted:
  "is_http_url [] = Inr False \<and> is_http_url '' '' = Inr True \<and>
   extract_links (stub_parser ['' '']) ''<html>'' ''https://site.test/page''
     = Inr ([''https://site.test/page''],
            [''[INFO] Raw <a> tags with href found: 1'',
             ''[INFO] Unique checkable HTTP(S) links: 1''])"
  by code_simp

text \<open>
  C3: an href that begins with \<open>#\<close>, \<open>mailto:\<close>, \<open>tel:\<close>, \<open>javascript:\<close> or \<open>data:\<close> is
  never accepted as navigable, and whenever \<open>extract_links\<close> returns a list of links for a
  document, it returns the same list for the document without every such anchor: these
  anchors add nothing to the result.
\<close>

theorem rejected_hrefs_excluded:
  "(startswith h [''#'', ''mailto:'', ''tel:'', ''javascript:'', ''data:'']
      \<longrightarrow> is_http_url h \<noteq> Inr True) \<and>
   (extract_links anchors html base_url = Inr (links, printed) \<longrightarrow>
      (\<exists>printed'.
         extract_links
           (\<lambda>d. filter (\<lambda>x. \<not> startswith x [''#'', ''mailto:'', ''tel:'', ''javascript:'', ''data:''])
                   (anchors d))
           html base_url = Inr (links, printed')))"
  using is_http_url_rejected
    extract_links_filter
      [where R = "\<lambda>x. startswith x [''#'', ''mailto:'', ''tel:'', ''javascript:'', ''data:'']",
       OF is_http_url_rejected]
  by blast

theorem rejected_hrefs_excluded_witness:
  "is_http_url ''#top'' \<noteq> Inr True \<and>
   (\<exists>printed'. extract_links (stub_parser []) ''<html>'' ''https://site.test''
                 = Inr ([], printed'))"
proof -
  have e: "extract_links (stub_parser [''#top'']) ''<html>'' ''https://site.test'' =
      Inr ([], [''[INFO] Raw <a> tags with href found: 1'',
                ''[INFO] Unique checkable HTTP(S) links: 0''])"
    by code_simp
  have s: "startswith ''#top'' [''#'', ''mailto:'', ''tel:'', ''javascript:'', ''data:'']"
    by (simp add: startswith_def)
  have f: "(\<lambda>d. filter (\<lambda>x. \<not> startswith x [''#'', ''mailto:'', ''tel:'', ''javascript:'', ''data:''])
                   (stub_parser [''#top''] d)) = stub_parser []"
    by (simp add: stub_parser_def startswith_def)
  from rejected_hrefs_excluded
    [of "''#top''" "stub_parser [''#top'']" "''<html>''" "''https://site.test''" "[]"
        "[''[INFO] Raw <a> tags with href found: 1'',
          ''[INFO] Unique checkable HTTP(S) links: 0'']"]
    e s show ?thesis
    unfolding f by simp
qed

text \<open>
  C4: the list that \<open>extract_links\<close> returns is in ascending order (the order of
  \<^typ>\<open>string\<close> is the lexicographic order of the code points, as Python compares
  \<open>str\<close>) and no URL occurs twice in it.
\<close>

theorem extract_links_sorted_distinct:
  "extract_links anchors html base_url = Inr (links, printed) \<Longrightarrow>
     sorted links \<and> distinct links"
  by (drule extract_links_Inr) simp

theorem extract_links_sorted_distinct_witness:
  "extract_links (stub_parser [''/b'', ''/a'', ''/b'', ''https://site.test/a'']) ''<html>''
      ''https://site.test''
     = Inr ([''https://site.test/a'', ''https://site.test/b''],
            [''[INFO] Raw <a> tags with href found: 4'',
             ''[INFO] Unique checkable HTTP(S) links: 2'']) \<and>
   sorted [''https://site.test/a'', ''https://site.test/b''] \<and>
   distinct [''https://site.test/a'', ''https://site.test/b'']"
proof -
  have e: "extract_links (stub_parser [''/b'', ''/a'', ''/b'', ''https://site.test/a'']) ''<html>''
      ''https://site.test''
     = Inr ([''https://site.test/a'', ''https://site.test/b''],
            [''[INFO] Raw <a> tags with href found: 4'',
             ''[INFO] Unique checkable HTTP(S) links: 2''])"
    by code_simp
  from extract_links_sorted_distinct [OF e] e show ?thesis
    by blast
qed




section \<open>Properties of \<open>main\<close>\<close>

text \<open>
  The loop, when no check raises: every link has its result, and \<open>broken_links\<close> grows by
  the broken results, in order.
\<close>

lemma main_loop_None:
  "main_loop net n s i links bl out = (None, s', bl', out') \<Longrightarrow>
     map fst (link_results net s links) = links \<and>
     bl' = bl @ map (\<lambda>(l, b, info). (l, info)) (broken_results (link_results net s links))"
proof (induction links arbitrary: s i bl out)
  case Nil
  then show ?case by (simp add: broken_results_def)
next
  case (Cons link rest)
  obtain r s1 where c: "check_link net s link 10 = (r, s1)"
    by (cases "check_link net s link 10")
  show ?case
  proof (cases r)
    case (Inl e)
    with Cons.prems c show ?thesis by (simp add: Let_def)
  next
    case (Inr v)
    obtain b info where v: "v = (b, info)" by (cases v)
    show ?thesis
    proof (cases b)
      case True
      with Cons.prems c Inr v have
        "main_loop net n s1 (i + 1) rest (bl @ [(link, info)])
           (out @ [''[CHECK] ('' @ str_int (int i) @ ''/'' @ str_int (int n) @ '') '' @ link]
                @ [''  -> BROKEN: '' @ info]) = (None, s', bl', out')"
        by (simp add: Let_def)
      from Cons.IH [OF this] c Inr v True show ?thesis
        by (simp add: broken_results_def)
    next
      case False
      with Cons.prems c Inr v have
        "main_loop net n s1 (i + 1) rest bl
           (out @ [''[CHECK] ('' @ str_int (int i) @ ''/'' @ str_int (int n) @ '') '' @ link]
                @ [''  -> OK: '' @ info]) = (None, s', bl', out')"
        by (simp add: Let_def)
      from Cons.IH [OF this] c Inr v False show ?thesis
        by (simp add: broken_results_def)
    qed
  qed
qed


lemma main_summary_lines:
  "main_summary n (map (\<lambda>(l, b, info). (l, info)) brs) =
     [CHR 0x0A # ''=== SUMMARY ==='',
      ''Total links checked: '' @ str_int (int n),
      ''Broken links found: '' @ str_int (int (length brs))]
     @ (if brs = [] then [] else (CHR 0x0A # ''Broken links:'') # map broken_line brs)"
  by (auto simp: main_summary_def broken_line_def split_beta)

lemma main_Returned:
  assumes page: "main_page chromium net create_session u no_js = Inr (html, s, out0)"
    and run: "main chromium anchors net u no_js = (Returned, out)"
  shows "\<exists>links printed pre.
           extract_links anchors html u = Inr (links, printed) \<and>
           out = pre @ main_summary (length links)
                   (map (\<lambda>(l, b, info). (l, info)) (broken_results (link_results net s links))) \<and>
           map fst (link_results net s links) = links"
proof -
  from run page have r: "main_links anchors net s u html out0 = (Returned, out)"
    by (simp add: main_def)
  then obtain links printed where e: "extract_links anchors html u = Inr (links, printed)"
    by (cases "extract_links anchors html u") (auto simp: main_links_def)
  from r e have ne: "links \<noteq> []"
    by (auto simp: main_links_def split: if_splits)
  define out2 where "out2 = (out0 @ [''[INFO] Extracting links from DOM...''] @ printed) @
     [''[INFO] Starting HTTP checks for '' @ str_int (int (length links)) @ '' link(s)...'']"
  obtain x s1 bl out3 where l: "main_loop net (length links) s 1 links [] out2 = (x, s1, bl, out3)"
    by (cases "main_loop net (length links) s 1 links [] out2") auto
  from r e ne l have x: "x = None" and o: "out = out3 @ main_summary (length links) bl"
    by (auto simp: main_links_def Let_def out2_def split: option.splits)
  from main_loop_None [OF l [unfolded x]] o e show ?thesis by auto
qed

lemma sorted_wrt_subseq:
  "subseq ys xs \<Longrightarrow> sorted_wrt P xs \<Longrightarrow> sorted_wrt P ys"
proof (induction ys xs rule: list_emb.induct)
  case (list_emb_Nil ys)
  then show ?case by simp
next
  case (list_emb_Cons xs ys y)
  then show ?case by simp
next
  case (list_emb_Cons2 x y xs ys)
  then have "set xs \<subseteq> set ys"
    by (auto dest: list_emb_set)
  with list_emb_Cons2 show ?case by auto
qed

text \<open>
  C6: in a run that reaches the summary, \<open>extract_links\<close> has returned a list of links,
  every link has one result, the count that the summary reports is the number of results
  whose verdict is broken, the broken-link list it prints has that many lines, and the
  count is at most the number of links checked.
\<close>

theorem summary_counts:
  assumes page: "main_page chromium net create_session u no_js = Inr (html, s, out0)"
    and run: "main chromium anchors net u no_js = (Returned, out)"
  shows "\<exists>links printed.
           extract_links anchors html u = Inr (links, printed) \<and>
           (let results = link_results net s links;
                broken = broken_results results
            in map fst results = links \<and>
               suffix ([CHR 0x0A # ''=== SUMMARY ==='',
                        ''Total links checked: '' @ str_int (int (length links)),
                        ''Broken links found: '' @ str_int (int (length broken))]
                       @ (if broken = [] then []
                          else (CHR 0x0A # ''Broken links:'') # map broken_line broken)) out \<and>
               length (map broken_line broken) = length (filter (\<lambda>(l, b, info). b) results) \<and>
               length broken \<le> length links)"
proof -
  from main_Returned [OF page run] obtain links printed pre where
    e: "extract_links anchors html u = Inr (links, printed)"
    and o: "out = pre @ main_summary (length links)
            (map (\<lambda>(l, b, info). (l, info)) (broken_results (link_results net s links)))"
    and m: "map fst (link_results net s links) = links"
    by blast
  let ?results = "link_results net s links"
  have "length (broken_results ?results) \<le> length ?results"
    by (simp add: broken_results_def)
  also have "length ?results = length links"
    using m by (metis length_map)
  finally have le: "length (broken_results ?results) \<le> length links" .
  from o have "suffix (main_summary (length links)
            (map (\<lambda>(l, b, info). (l, info)) (broken_results ?results))) out"
    by (simp add: suffix_def)
  with m le have "let results = link_results net s links;
                broken = broken_results results
            in map fst results = links \<and>
               suffix ([CHR 0x0A # ''=== SUMMARY ==='',
                        ''Total links checked: '' @ str_int (int (length links)),
                        ''Broken links found: '' @ str_int (int (length broken))]
                       @ (if broken = [] then []
                          else (CHR 0x0A # ''Broken links:'') # map broken_line broken)) out \<and>
               length (map broken_line broken) = length (filter (\<lambda>(l, b, info). b) results) \<and>
               length broken \<le> length links"
    by (simp add: Let_def main_summary_lines broken_results_def)
  with e show ?thesis by blast
qed

theorem summary_counts_witness:
  "suffix [CHR 0x0A # ''=== SUMMARY ==='', ''Total links checked: 2'', ''Broken links found: 1'',
           CHR 0x0A # ''Broken links:'', ''- https://site.test/missing  [HTTP 404 (HEAD)]'']
     (snd (main (stub_browser ''<html>'') (stub_parser [''https://ok.example/x'', ''/missing''])
             (table_network [(''https://site.test/missing'', 404)]) ''https://site.test'' False))"
proof -
  let ?net = "table_network [(''https://site.test/missing'', 404)]"
  have page: "main_page (stub_browser ''<html>'') ?net create_session ''https://site.test'' False
      = Inr (''<html>'', create_session,
             [''[INFO] Rendering page with Playwright (Chromium): https://site.test''])"
    by (simp add: main_page_def get_rendered_html_def stub_browser_def)
  have run: "main (stub_browser ''<html>'') (stub_parser [''https://ok.example/x'', ''/missing''])
             ?net ''https://site.test'' False =
    (Returned,
     [''[INFO] Rendering page with Playwright (Chromium): https://site.test'',
      ''[INFO] Extracting links from DOM...'',
      ''[INFO] Raw <a> tags with href found: 2'',
      ''[INFO] Unique checkable HTTP(S) links: 2'',
      ''[INFO] Starting HTTP checks for 2 link(s)...'',
      ''[CHECK] (1/2) https://ok.example/x'', ''  -> OK: HTTP 200 (HEAD)'',
      ''[CHECK] (2/2) https://site.test/missing'', ''  -> BROKEN: HTTP 404 (HEAD)'',
      CHR 0x0A # ''=== SUMMARY ==='', ''Total links checked: 2'', ''Broken links found: 1'',
      CHR 0x0A # ''Broken links:'', ''- https://site.test/missing  [HTTP 404 (HEAD)]''])"
    by code_simp
  have ex: "extract_links (stub_parser [''https://ok.example/x'', ''/missing''])
                  ''<html>'' ''https://site.test''
      = Inr ([''https://ok.example/x'', ''https://site.test/missing''],
             [''[INFO] Raw <a> tags with href found: 2'',
              ''[INFO] Unique checkable HTTP(S) links: 2''])"
    by code_simp
  have results: "link_results ?net create_session
       [''https://ok.example/x'', ''https://site.test/missing'']
     = [(''https://ok.example/x'', False, ''HTTP 200 (HEAD)''),
        (''https://site.test/missing'', True, ''HTTP 404 (HEAD)'')]"
    by code_simp
  have broken: "broken_results
       [(''https://ok.example/x'', False, ''HTTP 200 (HEAD)''),
        (''https://site.test/missing'', True, ''HTTP 404 (HEAD)'')]
     = [(''https://site.test/missing'', True, ''HTTP 404 (HEAD)'')]"
    by (simp add: broken_results_def)
  from summary_counts [OF page run] obtain links printed where
    e: "extract_links (stub_parser [''https://ok.example/x'', ''/missing''])
          ''<html>'' ''https://site.test'' = Inr (links, printed)"
    and t: "let results = link_results ?net create_session links;
                broken = broken_results results
            in map fst results = links \<and>
               suffix ([CHR 0x0A # ''=== SUMMARY ==='',
                        ''Total links checked: '' @ str_int (int (length links)),
                        ''Broken links found: '' @ str_int (int (length broken))]
                       @ (if broken = [] then []
                          else (CHR 0x0A # ''Broken links:'') # map broken_line broken))
                 (snd (main (stub_browser ''<html>'')
                         (stub_parser [''https://ok.example/x'', ''/missing''])
                         ?net ''https://site.test'' False)) \<and>
               length (map broken_line broken) = length (filter (\<lambda>(l, b, info). b) results) \<and>
               length broken \<le> length links"
    by (auto simp: run)
  from e ex have l: "links = [''https://ok.example/x'', ''https://site.test/missing'']"
    by simp
  note t' = t [unfolded l Let_def results broken]
  from t' show ?thesis
    by (simp add: broken_line_def str_int_eval run)
qed

text \<open>
  C10: in a run that reaches the summary, the broken links it lists are the links whose
  verdict is broken, in the order in which the links were checked (a subsequence of the
  list of links that \<open>extract_links\<close> returned), which is the strictly ascending order of
  their URLs.
\<close>

theorem broken_links_order:
  assumes page: "main_page chromium net create_session u no_js = Inr (html, s, out0)"
    and run: "main chromium anchors net u no_js = (Returned, out)"
  shows "\<exists>links printed.
           extract_links anchors html u = Inr (links, printed) \<and>
           (let broken = broken_results (link_results net s links)
            in (broken \<noteq> [] \<longrightarrow>
                  suffix ((CHR 0x0A # ''Broken links:'') # map broken_line broken) out) \<and>
               subseq (map fst broken) links \<and>
               sorted_wrt (<) (map fst broken))"
proof -
  from main_Returned [OF page run] obtain links printed pre where
    e: "extract_links anchors html u = Inr (links, printed)"
    and o: "out = pre @ main_summary (length links)
            (map (\<lambda>(l, b, info). (l, info)) (broken_results (link_results net s links)))"
    and m: "map fst (link_results net s links) = links"
    by blast
  let ?results = "link_results net s links"
  let ?broken = "broken_results ?results"
  have "subseq (map fst ?broken) (map fst ?results)"
    by (simp add: broken_results_def subseq_map)
  then have sub: "subseq (map fst ?broken) links"
    using m by simp
  have "sorted_wrt (<) links"
    using extract_links_Inr [OF e] by simp
  with sub have srt: "sorted_wrt (<) (map fst ?broken)"
    using sorted_wrt_subseq by blast
  have "?broken \<noteq> [] \<longrightarrow> suffix ((CHR 0x0A # ''Broken links:'') # map broken_line ?broken) out"
    using o by (auto simp: main_summary_lines suffix_def)
  with sub srt have "let broken = broken_results (link_results net s links)
            in (broken \<noteq> [] \<longrightarrow>
                  suffix ((CHR 0x0A # ''Broken links:'') # map broken_line broken) out) \<and>
               subseq (map fst broken) links \<and>
               sorted_wrt (<) (map fst broken)"
    by (simp add: Let_def)
  with e show ?thesis by blast
qed

theorem broken_links_order_witness:
  "suffix [CHR 0x0A # ''Broken links:'',
           ''- https://site.test/a  [HTTP 404 (HEAD)]'',
           ''- https://site.test/c  [HTTP 500 (HEAD)]'']
     (snd (main (stub_browser ''<html>'') (stub_parser [''/c'', ''/a'', ''/b'', ''/a''])
             (table_network [(''https://site.test/c'', 500), (''https://site.test/a'', 404)])
             ''https://site.test'' False)) \<and>
   subseq [''https://site.test/a'', ''https://site.test/c'']
     [''https://site.test/a'', ''https://site.test/b'', ''https://site.test/c'']"
proof -
  let ?net = "table_network [(''https://site.test/c'', 500), (''https://site.test/a'', 404)]"
  have page: "main_page (stub_browser ''<html>'') ?net create_session ''https://site.test'' False
      = Inr (''<html>'', create_session,
             [''[INFO] Rendering page with Playwright (Chromium): https://site.test''])"
    by (simp add: main_page_def get_rendered_html_def stub_browser_def)
  have run: "main (stub_browser ''<html>'') (stub_parser [''/c'', ''/a'', ''/b'', ''/a''])
             ?net ''https://site.test'' False =
    (Returned,
     [''[INFO] Rendering page with Playwright (Chromium): https://site.test'',
      ''[INFO] Extracting links from DOM...'',
      ''[INFO] Raw <a> tags with href found: 4'',
      ''[INFO] Unique checkable HTTP(S) links: 3'',
      ''[INFO] Starting HTTP checks for 3 link(s)...'',
      ''[CHECK] (1/3) https://site.test/a'', ''  -> BROKEN: HTTP 404 (HEAD)'',
      ''[CHECK] (2/3) https://site.test/b'', ''  -> OK: HTTP 200 (HEAD)'',
      ''[CHECK] (3/3) https://site.test/c'', ''  -> BROKEN: HTTP 500 (HEAD)'',
      CHR 0x0A # ''=== SUMMARY ==='', ''Total links checked: 3'', ''Broken links found: 2'',
      CHR 0x0A # ''Broken links:'',
      ''- https://site.test/a  [HTTP 404 (HEAD)]'',
      ''- https://site.test/c  [HTTP 500 (HEAD)]''])"
    by code_simp
  have ex: "extract_links (stub_parser [''/c'', ''/a'', ''/b'', ''/a''])
                  ''<html>'' ''https://site.test''
      = Inr ([''https://site.test/a'', ''https://site.test/b'', ''https://site.test/c''],
             [''[INFO] Raw <a> tags with href found: 4'',
              ''[INFO] Unique checkable HTTP(S) links: 3''])"
    by code_simp
  have results: "link_results ?net create_session
       [''https://site.test/a'', ''https://site.test/b'', ''https://site.test/c'']
     = [(''https://site.test/a'', True, ''HTTP 404 (HEAD)''),
        (''https://site.test/b'', False, ''HTTP 200 (HEAD)''),
        (''https://site.test/c'', True, ''HTTP 500 (HEAD)'')]"
    by code_simp
  have broken: "broken_results
       [(''https://site.test/a'', True, ''HTTP 404 (HEAD)''),
        (''https://site.test/b'', False, ''HTTP 200 (HEAD)''),
        (''https://site.test/c'', True, ''HTTP 500 (HEAD)'')]
     = [(''https://site.test/a'', True, ''HTTP 404 (HEAD)''),
        (''https://site.test/c'', True, ''HTTP 500 (HEAD)'')]"
    by (simp add: broken_results_def)
  from broken_links_order [OF page run] obtain links printed where
    e: "extract_links (stub_parser [''/c'', ''/a'', ''/b'', ''/a''])
          ''<html>'' ''https://site.test'' = Inr (links, printed)"
    and t: "let broken = broken_results (link_results ?net create_session links)
            in (broken \<noteq> [] \<longrightarrow>
                  suffix ((CHR 0x0A # ''Broken links:'') # map broken_line broken)
                    (snd (main (stub_browser ''<html>'')
                            (stub_parser [''/c'', ''/a'', ''/b'', ''/a''])
                            ?net ''https://site.test'' False))) \<and>
               subseq (map fst broken) links \<and>
               sorted_wrt (<) (map fst broken)"
    by (auto simp: run)
  from e ex have l: "links = [''https://site.test/a'', ''https://site.test/b'', ''https://site.test/c'']"
    by simp
  note t' = t [unfolded l Let_def results broken]
  from t' show ?thesis
    by (simp add: broken_line_def run)
qed





end
